theory Spec2Isabelle
  imports Main
begin

section \<open>The Zulip emoji synchronisation script\<close>

text \<open>
  A shallow embedding of \<^verbatim>\<open>scripts/zulip_emoji_merge_delegate.py\<close>. The script
  fetches the newest messages of one channel, searches each message's content for a link to
  a pull request and, for a message that links it, replaces the status reactions of that
  message by the one that reflects the label.

  The script talks to the chat service through three client calls. The fetch is an input
  of the model (the list \<open>messages\<close> of the response); every \<open>remove_reaction\<close> and
  \<open>add_reaction\<close> call is recorded, in the order of issue, as a \<open>request\<close>.
\<close>

subsection \<open>Messages and requests\<close>

record reaction =
  emoji_name :: string

record message =
  message_id :: int
  content :: string
  reactions :: "reaction list"

datatype request =
    RemoveReaction int string
  | AddReaction int string

subsection \<open>The chat service\<close>

text \<open>
  Modelled from the spec: the remote chat service is an external collaborator and none of
  its code is part of the script. Following the data model of the specification, the
  existence of a reaction is binary per pair of message and emoji name, adding is
  idempotent, and removing a reaction that does not exist is tolerated. The state of the
  service maps every message identifier to the set of emoji names attached to it.
\<close>

type_synonym zulip = "int \<Rightarrow> string set"

fun apply_request :: "request \<Rightarrow> zulip \<Rightarrow> zulip" where
  "apply_request (RemoveReaction i e) z = z(i := z i - {e})"
| "apply_request (AddReaction i e) z = z(i := insert e (z i))"

definition run_requests :: "request list \<Rightarrow> zulip \<Rightarrow> zulip" where
  "run_requests rs z = fold apply_request rs z"

fun is_add :: "request \<Rightarrow> bool" where
  "is_add (AddReaction i e) = True"
| "is_add (RemoveReaction i e) = False"

subsection \<open>The pattern: \<^verbatim>\<open>re.escape\<close>, \<^verbatim>\<open>re.compile\<close> and \<^verbatim>\<open>search\<close>\<close>

text \<open>
  \<^verbatim>\<open>re.escape\<close> of CPython (3.7 and later) puts a backslash before each of the characters
  \<^verbatim>\<open>()[]{}?*+-|^$\.&~#\<close>, the space and the five control characters tab, newline,
  carriage return, vertical tab and form feed, and copies every other character.
\<close>

definition backslash :: char where
  "backslash = CHR 0x5C"

definition special_chars_map :: "char list" where
  "special_chars_map =
     ''()[]{}?*+-|^$'' @ [backslash] @ ''.&~# '' @
     [CHR 0x09, CHR 0x0A, CHR 0x0D, CHR 0x0B, CHR 0x0C]"

fun re_escape :: "string \<Rightarrow> string" where
  "re_escape [] = []"
| "re_escape (c # cs) =
     (if c \<in> set special_chars_map then backslash # c # re_escape cs
      else c # re_escape cs)"

text \<open>
  The parser of the pattern language, on the fragment the script can reach. A compiled
  pattern is a sequence of items: a literal character or the dot, which matches every
  character but the newline. A backslash followed by a character that is neither an ASCII
  letter nor a digit stands for that character; a character outside \<open>SPECIAL_CHARS\<close>
  stands for itself. Every other construct of the pattern language (repetition, groups,
  classes, anchors, alternation, escapes by letter or digit) and the malformed pattern that
  ends in a backslash give \<open>None\<close>: such a pattern is not modelled here.
\<close>

datatype re_item = LITERAL char | ANY

definition SPECIAL_CHARS :: "char list" where
  "SPECIAL_CHARS = ''.'' @ [backslash] @ ''[{()*+?^$|''"

definition ascii_alnum :: "char \<Rightarrow> bool" where
  "ascii_alnum c =
     (c \<in> set (''abcdefghijklmnopqrstuvwxyzABCDEFGHIJKLMNOPQRSTUVWXYZ'' @ ''0123456789''))"

fun sre_parse :: "string \<Rightarrow> re_item list option" where
  "sre_parse [] = Some []"
| "sre_parse [c] =
     (if c = backslash then None
      else if c = CHR ''.'' then Some [ANY]
      else if c \<in> set SPECIAL_CHARS then None
      else Some [LITERAL c])"
| "sre_parse (c # d # cs) =
     (if c = backslash then
        (if ascii_alnum d then None
         else map_option (Cons (LITERAL d)) (sre_parse cs))
      else if c = CHR ''.'' then map_option (Cons ANY) (sre_parse (d # cs))
      else if c \<in> set SPECIAL_CHARS then None
      else map_option (Cons (LITERAL c)) (sre_parse (d # cs)))"

text \<open>\<open>match_here p s\<close>: the pattern matches a prefix of \<open>s\<close>.\<close>

fun match_here :: "re_item list \<Rightarrow> string \<Rightarrow> bool" where
  "match_here [] s = True"
| "match_here (i # p) [] = False"
| "match_here (LITERAL c # p) (d # s) = (c = d \<and> match_here p s)"
| "match_here (ANY # p) (d # s) = (d \<noteq> CHR 0x0A \<and> match_here p s)"

text \<open>\<^verbatim>\<open>pattern.search(content)\<close>: the pattern matches at some position of the content.\<close>

fun search :: "re_item list \<Rightarrow> string \<Rightarrow> bool" where
  "search p [] = match_here p []"
| "search p (c # s) = (match_here p (c # s) \<or> search p s)"

text \<open>
  The raw string in front of the escaped number:
  \<^verbatim>\<open>r'https://github\.com/leanprover-community/mathlib4/pull/'\<close>.
\<close>

definition pull_pattern_prefix :: string where
  "pull_pattern_prefix =
     ''https://github'' @ [backslash] @ ''.com/leanprover-community/mathlib4/pull/''"

definition pr_pattern :: "string \<Rightarrow> re_item list option" where
  "pr_pattern pr_number = sre_parse (pull_pattern_prefix @ re_escape pr_number)"

text \<open>The text of a link to a pull request, up to its number.\<close>

definition pull_url :: string where
  "pull_url = ''https://github.com/leanprover-community/mathlib4/pull/''"

subsection \<open>Reconciliation of one matched message\<close>

text \<open>\<^verbatim>\<open>LABEL.startswith(prefix)\<close>.\<close>

fun startswith :: "string \<Rightarrow> string \<Rightarrow> bool" where
  "startswith s [] = True"
| "startswith [] (p # ps) = False"
| "startswith (c # s) (p # ps) = (c = p \<and> startswith s ps)"

text \<open>
  The body of the loop for a message whose content matched: the requests it issues, in
  order. The three presence flags are read from the fetched copy of the message, before any
  request is issued (\<open>has_merge\<close> is computed and never read).
\<close>

definition reconcile :: "string \<Rightarrow> message \<Rightarrow> request list" where
  "reconcile LABEL message =
     (let has_peace_sign = list_ex (\<lambda>r. emoji_name r = ''peace_sign'') (reactions message);
          has_bors = list_ex (\<lambda>r. emoji_name r = ''bors'') (reactions message);
          has_merge = list_ex (\<lambda>r. emoji_name r = ''merge'') (reactions message);
          labels = [LABEL]
      in [RemoveReaction (message_id message) ''peace_sign'',
          RemoveReaction (message_id message) ''bors'',
          RemoveReaction (message_id message) ''merge''] @
         (if ''delegated'' \<in> set labels then
            [AddReaction (message_id message) ''peace_sign'']
          else if ''ready-to-merge'' \<in> set labels then
            (if has_peace_sign then [RemoveReaction (message_id message) ''peace_sign'']
             else []) @
            [AddReaction (message_id message) ''bors'']
          else if startswith LABEL ''[Merged by Bors]'' then
            (if has_peace_sign then [RemoveReaction (message_id message) ''peace_sign'']
             else []) @
            (if has_bors then [RemoveReaction (message_id message) ''bors''] else []) @
            [AddReaction (message_id message) ''merge'']
          else []))"

text \<open>
  The same body with the guarded removals deleted: the three unconditional removals, then
  the reaction the label asks for.
\<close>

definition reconcile_unguarded :: "string \<Rightarrow> message \<Rightarrow> request list" where
  "reconcile_unguarded LABEL message =
     (let labels = [LABEL]
      in [RemoveReaction (message_id message) ''peace_sign'',
          RemoveReaction (message_id message) ''bors'',
          RemoveReaction (message_id message) ''merge''] @
         (if ''delegated'' \<in> set labels then
            [AddReaction (message_id message) ''peace_sign'']
          else if ''ready-to-merge'' \<in> set labels then
            [AddReaction (message_id message) ''bors'']
          else if startswith LABEL ''[Merged by Bors]'' then
            [AddReaction (message_id message) ''merge'']
          else []))"

subsection \<open>The loop over the fetched messages and the whole script\<close>

text \<open>
  \<^verbatim>\<open>for message in messages\<close>: the loop has no \<^verbatim>\<open>break\<close>, so after the body has run for
  one message the iteration goes on with the next.
\<close>

fun for_messages :: "re_item list \<Rightarrow> string \<Rightarrow> message list \<Rightarrow> request list" where
  "for_messages p LABEL [] = []"
| "for_messages p LABEL (message # messages) =
     (if search p (content message) then reconcile LABEL message else []) @
     for_messages p LABEL messages"

datatype error = ReError

text \<open>
  The script from the response of the fetch on: \<^verbatim>\<open>re.compile\<close> raises before the loop
  when the pattern is rejected; otherwise the script ends normally with the requests of
  the loop issued.
\<close>

definition script :: "string \<Rightarrow> string \<Rightarrow> message list \<Rightarrow> error + request list" where
  "script LABEL pr_number messages =
     (case pr_pattern pr_number of
        None \<Rightarrow> Inl ReError
      | Some p \<Rightarrow> Inr (for_messages p LABEL messages))"

section \<open>Properties\<close>

subsection \<open>The compiled pattern is a sequence of literals\<close>

lemma special_not_alnum: "c \<in> set special_chars_map \<Longrightarrow> \<not> ascii_alnum c"
  by (auto simp: special_chars_map_def ascii_alnum_def backslash_def)

lemma SPECIAL_subset: "c \<in> set SPECIAL_CHARS \<Longrightarrow> c \<in> set special_chars_map"
  by (auto simp: special_chars_map_def SPECIAL_CHARS_def backslash_def)

lemma backslash_special: "backslash \<in> set special_chars_map"
  by (simp add: special_chars_map_def)

lemma dot_special: "CHR ''.'' \<in> set special_chars_map"
  by (simp add: special_chars_map_def)

lemma sre_parse_literal_cons:
  assumes "c \<noteq> backslash" "c \<noteq> CHR ''.''" "c \<notin> set SPECIAL_CHARS"
  shows "sre_parse (c # cs) = map_option (Cons (LITERAL c)) (sre_parse cs)"
  using assms by (cases cs) simp_all

lemma sre_parse_escaped_cons:
  assumes "\<not> ascii_alnum d"
  shows "sre_parse (backslash # d # cs) = map_option (Cons (LITERAL d)) (sre_parse cs)"
  using assms by simp

lemma sre_parse_escaped_cons_char:
  assumes "\<not> ascii_alnum d"
  shows "sre_parse (CHR 0x5C # d # cs) = map_option (Cons (LITERAL d)) (sre_parse cs)"
  using assms by (simp add: backslash_def)

text \<open>
  An escaped string in front of any pattern text parses to its own characters as literals,
  followed by the parse of the rest: no character of the argument starts or joins a
  construct of the pattern language.
\<close>

lemma sre_parse_re_escape_append:
  "sre_parse (re_escape s @ t) = map_option ((@) (map LITERAL s)) (sre_parse t)"
proof (induction s)
  case Nil
  show ?case by (simp add: option.map_ident)
next
  case (Cons c s)
  show ?case
  proof (cases "c \<in> set special_chars_map")
    case True
    then have "\<not> ascii_alnum c" by (rule special_not_alnum)
    then show ?thesis using True Cons.IH
      by (simp add: sre_parse_escaped_cons option.map_comp comp_def del: sre_parse.simps)
  next
    case False
    then have "c \<noteq> backslash" "c \<noteq> CHR ''.''" "c \<notin> set SPECIAL_CHARS"
      using backslash_special dot_special SPECIAL_subset by auto
    then show ?thesis using False Cons.IH
      by (simp add: sre_parse_literal_cons option.map_comp comp_def del: sre_parse.simps)
  qed
qed

lemma sre_parse_prefix:
  "sre_parse (pull_pattern_prefix @ t) = map_option ((@) (map LITERAL pull_url)) (sre_parse t)"
  unfolding pull_pattern_prefix_def pull_url_def
  by (cases "sre_parse t")
     (simp_all add: sre_parse_literal_cons sre_parse_escaped_cons_char SPECIAL_CHARS_def
        ascii_alnum_def backslash_def del: sre_parse.simps)

lemma pr_pattern_literal: "pr_pattern n = Some (map LITERAL (pull_url @ n))"
  using sre_parse_re_escape_append [of n "[]"]
  by (simp add: pr_pattern_def sre_parse_prefix)

subsection \<open>Searching for a sequence of literals is the substring test\<close>

lemma match_here_literal:
  "match_here (map LITERAL xs) s \<longleftrightarrow> (\<exists>post. s = xs @ post)"
proof (induction xs arbitrary: s)
  case Nil
  show ?case by simp
next
  case (Cons x xs)
  show ?case by (cases s) (auto simp: Cons.IH)
qed

lemma search_literal:
  "search (map LITERAL xs) s \<longleftrightarrow> (\<exists>pre post. s = pre @ xs @ post)"
proof (induction s)
  case Nil
  show ?case by (auto simp: match_here_literal)
next
  case (Cons c s)
  show ?case
  proof
    assume "search (map LITERAL xs) (c # s)"
    then consider "match_here (map LITERAL xs) (c # s)" | "search (map LITERAL xs) s" by auto
    then show "\<exists>pre post. c # s = pre @ xs @ post"
    proof cases
      case 1
      then obtain post where "c # s = xs @ post" by (auto simp: match_here_literal)
      then have "c # s = [] @ xs @ post" by simp
      then show ?thesis by blast
    next
      case 2
      then obtain pre post where "s = pre @ xs @ post" using Cons.IH by auto
      then have "c # s = (c # pre) @ xs @ post" by simp
      then show ?thesis by blast
    qed
  next
    assume "\<exists>pre post. c # s = pre @ xs @ post"
    then obtain pre post where e: "c # s = pre @ xs @ post" by auto
    show "search (map LITERAL xs) (c # s)"
    proof (cases pre)
      case Nil
      then have "match_here (map LITERAL xs) (c # s)"
        using e unfolding match_here_literal by auto
      then show ?thesis by simp
    next
      case (Cons a pre')
      then have "s = pre' @ xs @ post" using e by simp
      then have "search (map LITERAL xs) s" using Cons.IH by blast
      then show ?thesis by simp
    qed
  qed
qed

subsection \<open>The state after reconciliation\<close>

lemma run_reconcile_unguarded:
  "run_requests (reconcile_unguarded LABEL m) z =
     z(message_id m :=
         (z (message_id m) - {''peace_sign'', ''bors'', ''merge''}) \<union>
         (if LABEL = ''delegated'' then {''peace_sign''}
          else if LABEL = ''ready-to-merge'' then {''bors''}
          else if startswith LABEL ''[Merged by Bors]'' then {''merge''}
          else {}))"
  by (auto simp: run_requests_def reconcile_unguarded_def fun_eq_iff)

lemma run_reconcile:
  "run_requests (reconcile LABEL m) z =
     z(message_id m :=
         (z (message_id m) - {''peace_sign'', ''bors'', ''merge''}) \<union>
         (if LABEL = ''delegated'' then {''peace_sign''}
          else if LABEL = ''ready-to-merge'' then {''bors''}
          else if startswith LABEL ''[Merged by Bors]'' then {''merge''}
          else {}))"
  by (auto simp: run_requests_def reconcile_def Let_def fun_eq_iff)

lemma startswith_merged_not_other:
  "startswith LABEL ''[Merged by Bors]'' \<Longrightarrow>
     LABEL \<noteq> ''delegated'' \<and> LABEL \<noteq> ''ready-to-merge''"
  by (cases LABEL) auto

text \<open>
  Claim C3. With the label \<open>delegated\<close>, whatever reactions the matched message had (in the
  fetched copy and on the service), after the reconciliation \<open>peace_sign\<close> is present on
  the message and \<open>bors\<close> and \<open>merge\<close> are absent.
\<close>

theorem reconcile_delegated:
  "''peace_sign'' \<in> run_requests (reconcile ''delegated'' m) z (message_id m) \<and>
   ''bors'' \<notin> run_requests (reconcile ''delegated'' m) z (message_id m) \<and>
   ''merge'' \<notin> run_requests (reconcile ''delegated'' m) z (message_id m)"
  by (simp add: run_reconcile)

text \<open>
  Claim C4. With the label \<open>ready-to-merge\<close>, whatever reactions the matched message had,
  after the reconciliation \<open>bors\<close> is present on the message and \<open>peace_sign\<close> and
  \<open>merge\<close> are absent.
\<close>

theorem reconcile_ready_to_merge:
  "''bors'' \<in> run_requests (reconcile ''ready-to-merge'' m) z (message_id m) \<and>
   ''peace_sign'' \<notin> run_requests (reconcile ''ready-to-merge'' m) z (message_id m) \<and>
   ''merge'' \<notin> run_requests (reconcile ''ready-to-merge'' m) z (message_id m)"
  by (simp add: run_reconcile)

text \<open>
  Claim C5. With a label that begins with \<open>[Merged by Bors]\<close>, whatever reactions the
  matched message had, after the reconciliation \<open>merge\<close> is present on the message and
  \<open>peace_sign\<close> and \<open>bors\<close> are absent.
\<close>

theorem reconcile_merged_by_bors:
  assumes "startswith LABEL ''[Merged by Bors]''"
  shows "''merge'' \<in> run_requests (reconcile LABEL m) z (message_id m) \<and>
         ''peace_sign'' \<notin> run_requests (reconcile LABEL m) z (message_id m) \<and>
         ''bors'' \<notin> run_requests (reconcile LABEL m) z (message_id m)"
  using assms startswith_merged_not_other [OF assms] by (simp add: run_reconcile)

text \<open>
  The theorem at the label \<open>[Merged by Bors] pull request #42\<close>, for a message that carried
  \<open>bors\<close> and \<open>peace_sign\<close>.
\<close>

theorem reconcile_merged_by_bors_witness:
  "startswith ''[Merged by Bors] pull request #42'' ''[Merged by Bors]'' \<and>
   ''merge'' \<in> run_requests (reconcile ''[Merged by Bors] pull request #42''
       \<lparr>message_id = 5, content = [], reactions = [\<lparr>emoji_name = ''bors''\<rparr>]\<rparr>)
       ((\<lambda>i. {})(5 := {''bors'', ''peace_sign''})) 5 \<and>
   ''peace_sign'' \<notin> run_requests (reconcile ''[Merged by Bors] pull request #42''
       \<lparr>message_id = 5, content = [], reactions = [\<lparr>emoji_name = ''bors''\<rparr>]\<rparr>)
       ((\<lambda>i. {})(5 := {''bors'', ''peace_sign''})) 5 \<and>
   ''bors'' \<notin> run_requests (reconcile ''[Merged by Bors] pull request #42''
       \<lparr>message_id = 5, content = [], reactions = [\<lparr>emoji_name = ''bors''\<rparr>]\<rparr>)
       ((\<lambda>i. {})(5 := {''bors'', ''peace_sign''})) 5"
proof -
  have h: "startswith ''[Merged by Bors] pull request #42'' ''[Merged by Bors]''" by simp
  show ?thesis
    using h reconcile_merged_by_bors [OF h,
        of "\<lparr>message_id = 5, content = [], reactions = [\<lparr>emoji_name = ''bors''\<rparr>]\<rparr>"
           "(\<lambda>i. {})(5 := {''bors'', ''peace_sign''})"]
    by simp
qed

text \<open>
  Claim C6. With a label that is not \<open>delegated\<close>, not \<open>ready-to-merge\<close> and does not
  begin with \<open>[Merged by Bors]\<close>, the reconciliation of a matched message issues no
  add-reaction request, and afterwards \<open>peace_sign\<close>, \<open>bors\<close> and \<open>merge\<close> are all
  absent from the message, whatever reactions it had.
\<close>

theorem reconcile_other_label:
  assumes "LABEL \<noteq> ''delegated''" and "LABEL \<noteq> ''ready-to-merge''"
    and "\<not> startswith LABEL ''[Merged by Bors]''"
  shows "filter is_add (reconcile LABEL m) = [] \<and>
         ''peace_sign'' \<notin> run_requests (reconcile LABEL m) z (message_id m) \<and>
         ''bors'' \<notin> run_requests (reconcile LABEL m) z (message_id m) \<and>
         ''merge'' \<notin> run_requests (reconcile LABEL m) z (message_id m)"
  using assms by (simp add: run_reconcile) (simp add: reconcile_def Let_def)

text \<open>
  The theorem at the label \<open>awaiting-review\<close>, for a message that carried \<open>bors\<close> and
  \<open>merge\<close>.
\<close>

theorem reconcile_other_label_witness:
  "''awaiting-review'' \<noteq> ''delegated'' \<and> ''awaiting-review'' \<noteq> ''ready-to-merge'' \<and>
   \<not> startswith ''awaiting-review'' ''[Merged by Bors]'' \<and>
   filter is_add (reconcile ''awaiting-review''
       \<lparr>message_id = 5, content = [], reactions = [\<lparr>emoji_name = ''bors''\<rparr>]\<rparr>) = [] \<and>
   ''peace_sign'' \<notin> run_requests (reconcile ''awaiting-review''
       \<lparr>message_id = 5, content = [], reactions = [\<lparr>emoji_name = ''bors''\<rparr>]\<rparr>)
       ((\<lambda>i. {})(5 := {''bors'', ''merge''})) 5 \<and>
   ''bors'' \<notin> run_requests (reconcile ''awaiting-review''
       \<lparr>message_id = 5, content = [], reactions = [\<lparr>emoji_name = ''bors''\<rparr>]\<rparr>)
       ((\<lambda>i. {})(5 := {''bors'', ''merge''})) 5 \<and>
   ''merge'' \<notin> run_requests (reconcile ''awaiting-review''
       \<lparr>message_id = 5, content = [], reactions = [\<lparr>emoji_name = ''bors''\<rparr>]\<rparr>)
       ((\<lambda>i. {})(5 := {''bors'', ''merge''})) 5"
proof -
  have h1: "''awaiting-review'' \<noteq> ''delegated''" by simp
  have h2: "''awaiting-review'' \<noteq> ''ready-to-merge''" by simp
  have h3: "\<not> startswith ''awaiting-review'' ''[Merged by Bors]''" by simp
  show ?thesis
    using h1 h2 h3 reconcile_other_label [OF h1 h2 h3,
        of "\<lparr>message_id = 5, content = [], reactions = [\<lparr>emoji_name = ''bors''\<rparr>]\<rparr>"
           "(\<lambda>i. {})(5 := {''bors'', ''merge''})"]
    by simp
qed

text \<open>
  Claim C8. Reconciliation is idempotent. The second run works on a newly fetched copy of
  the message, whose list of reactions \<open>rs\<close> is arbitrary here; with the same label it
  leaves the service in the state the first run produced.
\<close>

theorem reconcile_idempotent:
  "run_requests (reconcile LABEL (m\<lparr>reactions := rs\<rparr>)) (run_requests (reconcile LABEL m) z) =
   run_requests (reconcile LABEL m) z"
  by (auto simp: run_reconcile fun_eq_iff)

text \<open>
  Claim C9. The removals guarded by \<open>has_peace_sign\<close> and \<open>has_bors\<close> are dead code: for
  every label, every fetched copy of the message and every state of the service, the body
  without them leaves the service in the same state as the body as written.
\<close>

theorem guarded_removals_dead:
  "run_requests (reconcile_unguarded LABEL m) z = run_requests (reconcile LABEL m) z"
  by (simp add: run_reconcile run_reconcile_unguarded)

subsection \<open>Which messages match\<close>

lemma search_link:
  "search (map LITERAL (pull_url @ n)) s \<longleftrightarrow> (\<exists>pre post. s = pre @ pull_url @ n @ post)"
  using search_literal [of "pull_url @ n" s] by simp

lemma for_messages_filter:
  "for_messages p LABEL messages =
     concat (map (reconcile LABEL) (filter (\<lambda>m. search p (content m)) messages))"
  by (induction messages) simp_all

lemma script_for_messages:
  "script LABEL pr_number messages =
     Inr (for_messages (map LITERAL (pull_url @ pr_number)) LABEL messages)"
  by (simp add: script_def pr_pattern_literal)

text \<open>
  Claim C10. For every argument string, whatever characters it holds, the pattern compiles,
  and it is found in a text exactly when the text contains the characters of the link
  prefix followed by the characters of the argument: the argument is never read as pattern
  syntax.
\<close>

theorem pr_pattern_literal_substring:
  "\<exists>p. pr_pattern pr_number = Some p \<and>
       (search p body \<longleftrightarrow> (\<exists>pre post. body = pre @ pull_url @ pr_number @ post))"
proof -
  have "search (map LITERAL (pull_url @ pr_number)) body \<longleftrightarrow>
          (\<exists>pre post. body = pre @ (pull_url @ pr_number) @ post)"
    by (rule search_literal)
  then show ?thesis by (simp add: pr_pattern_literal)
qed

text \<open>
  The theorem at the argument \<open>1.2\<close>, whose dot would match any character if it were read
  as pattern syntax: a link to \<open>1.2\<close> is found, a link to \<open>1x2\<close> is not.
\<close>

theorem pr_pattern_literal_substring_witness:
  "\<exists>p. pr_pattern ''1.2'' = Some p \<and>
       search p (''see '' @ pull_url @ ''1.2'' @ '' today'') \<and>
       \<not> search p (''see '' @ pull_url @ ''1x2'' @ '' today'')"
proof -
  obtain p where p: "pr_pattern ''1.2'' = Some p"
    and m: "search p (''see '' @ pull_url @ ''1.2'' @ '' today'') \<longleftrightarrow>
            (\<exists>pre post. ''see '' @ pull_url @ ''1.2'' @ '' today'' =
                         pre @ pull_url @ ''1.2'' @ post)"
    using pr_pattern_literal_substring [of "''1.2''" "''see '' @ pull_url @ ''1.2'' @ '' today''"]
    by blast
  have "search p (''see '' @ pull_url @ ''1.2'' @ '' today'')"
    unfolding m by blast
  moreover have "pr_pattern ''1.2'' = Some (map LITERAL (pull_url @ ''1.2''))"
    by code_simp
  moreover have "\<not> search (map LITERAL (pull_url @ ''1.2''))
                     (''see '' @ pull_url @ ''1x2'' @ '' today'')"
    by code_simp
  ultimately show ?thesis using p by auto
qed

text \<open>
  Claim C1, as the script has it. The search has no anchor after the number: a text that
  contains the link prefix followed by the given number is matched whatever follows the
  number, so also when more digits follow and the link is to a pull request whose number
  extends the given one.
\<close>

theorem pr_pattern_matches_extended_number:
  "\<exists>p. pr_pattern pr_number = Some p \<and>
       search p (pre @ pull_url @ pr_number @ ext @ post)"
proof -
  have "search (map LITERAL (pull_url @ pr_number))
          (pre @ (pull_url @ pr_number) @ (ext @ post))"
    unfolding search_literal by blast
  then show ?thesis by (simp add: pr_pattern_literal)
qed

text \<open>
  Invoked with the number \<open>12\<close>, the script treats a message that links pull request
  \<open>123\<close> as a match and reconciles it.
\<close>

theorem number_extension_counterexample:
  "script ''delegated'' ''12''
     [\<lparr>message_id = 7,
       content = ''https://github.com/leanprover-community/mathlib4/pull/123'',
       reactions = []\<rparr>] =
   Inr [RemoveReaction 7 ''peace_sign'', RemoveReaction 7 ''bors'',
        RemoveReaction 7 ''merge'', AddReaction 7 ''peace_sign'']"
  by code_simp

text \<open>
  Claim C2, as the script has it. The loop does not stop at the first match: the script
  reconciles every fetched message whose content matches the pattern, in the order of the
  response, and issues no request for a message whose content does not match.
\<close>

theorem script_every_match:
  "\<exists>p. pr_pattern pr_number = Some p \<and>
       script LABEL pr_number messages =
         Inr (concat (map (reconcile LABEL)
                (filter (\<lambda>m. search p (content m)) messages)))"
  by (simp add: script_def pr_pattern_literal for_messages_filter)

text \<open>
  Two fetched messages link the pull request: the second one is reconciled after the
  first.
\<close>

theorem two_matches_counterexample:
  "script ''ready-to-merge'' ''19367''
     [\<lparr>message_id = 1,
       content = ''https://github.com/leanprover-community/mathlib4/pull/19367'',
       reactions = []\<rparr>,
      \<lparr>message_id = 2,
       content = ''https://github.com/leanprover-community/mathlib4/pull/19367'',
       reactions = []\<rparr>] =
   Inr [RemoveReaction 1 ''peace_sign'', RemoveReaction 1 ''bors'',
        RemoveReaction 1 ''merge'', AddReaction 1 ''bors'',
        RemoveReaction 2 ''peace_sign'', RemoveReaction 2 ''bors'',
        RemoveReaction 2 ''merge'', AddReaction 2 ''bors'']"
  by code_simp

text \<open>
  Claim C7. When no fetched message contains the link to the given pull request number
  (which is when no content matches the pattern), the script ends normally having issued
  no request at all, and so leaves the reactions of every message as they were.
\<close>

theorem script_no_match:
  assumes "\<forall>m \<in> set messages. \<not> (\<exists>pre post. content m = pre @ pull_url @ pr_number @ post)"
  shows "script LABEL pr_number messages = Inr [] \<and> run_requests [] z = z"
proof -
  have "\<not> search (map LITERAL (pull_url @ pr_number)) (content m)"
    if "m \<in> set messages" for m
    using assms that unfolding search_link by blast
  then have "filter (\<lambda>m. search (map LITERAL (pull_url @ pr_number)) (content m)) messages = []"
    unfolding filter_empty_conv by blast
  then show ?thesis
    by (simp add: script_for_messages for_messages_filter run_requests_def)
qed

text \<open>
  The theorem for the number \<open>12\<close> and two messages, one without a link and one that links
  pull request \<open>7\<close>.
\<close>

theorem script_no_match_witness:
  "script ''delegated'' ''12''
     [\<lparr>message_id = 1, content = ''hello'', reactions = [\<lparr>emoji_name = ''bors''\<rparr>]\<rparr>,
      \<lparr>message_id = 2,
       content = ''https://github.com/leanprover-community/mathlib4/pull/7'',
       reactions = []\<rparr>] = Inr []"
proof -
  have n: "\<not> search (map LITERAL (pull_url @ ''12'')) ''hello''"
    "\<not> search (map LITERAL (pull_url @ ''12''))
        ''https://github.com/leanprover-community/mathlib4/pull/7''"
    by code_simp+
  have h: "\<forall>m \<in> set [\<lparr>message_id = 1, content = ''hello'',
                       reactions = [\<lparr>emoji_name = ''bors''\<rparr>]\<rparr>,
      \<lparr>message_id = 2,
       content = ''https://github.com/leanprover-community/mathlib4/pull/7'',
       reactions = []\<rparr>]. \<not> (\<exists>pre post. content m = pre @ pull_url @ ''12'' @ post)"
    using n unfolding search_link by simp
  show ?thesis using script_no_match [OF h] by simp
qed

end
